theory Spec2Isabelle
  imports Main "HOL-Library.Sublist"
begin

section \<open>Library functions used by the front end\<close>

subsection \<open>Character classification\<close>

text \<open>
  The lexer classifies the bytes of its buffer with \<^verbatim>\<open>isspace\<close>, \<^verbatim>\<open>isalpha\<close>,
  \<^verbatim>\<open>isdigit\<close>, \<^verbatim>\<open>isalnum\<close> and \<^verbatim>\<open>ispunct\<close> of the C library. They are
  taken in the default "C" locale, by character code: no byte above 127 belongs to any
  class.
\<close>

definition isspace :: "char \<Rightarrow> bool" where
  "isspace c = (let n = (of_char c :: nat) in n = 32 \<or> (9 \<le> n \<and> n \<le> 13))"

definition isdigit :: "char \<Rightarrow> bool" where
  "isdigit c = (let n = (of_char c :: nat) in 48 \<le> n \<and> n \<le> 57)"

definition isalpha :: "char \<Rightarrow> bool" where
  "isalpha c = (let n = (of_char c :: nat) in (65 \<le> n \<and> n \<le> 90) \<or> (97 \<le> n \<and> n \<le> 122))"

definition isalnum :: "char \<Rightarrow> bool" where
  "isalnum c = (isalpha c \<or> isdigit c)"

definition ispunct :: "char \<Rightarrow> bool" where
  "ispunct c = (let n = (of_char c :: nat) in
     (33 \<le> n \<and> n \<le> 47) \<or> (58 \<le> n \<and> n \<le> 64) \<or> (91 \<le> n \<and> n \<le> 96) \<or> (123 \<le> n \<and> n \<le> 126))"

subsection \<open>Strings\<close>

text \<open>
  \<^verbatim>\<open>std::string::substr(start, n)\<close> for a start inside the string: at most \<open>n\<close>
  characters from index \<open>start\<close> on. The lexer calls it with \<open>start \<le> pos \<le> size\<close> only.
\<close>

definition substr :: "string \<Rightarrow> nat \<Rightarrow> nat \<Rightarrow> string" where
  "substr s start n = take n (drop start s)"

text \<open>The line feed character, \<^verbatim>\<open>'\n'\<close> in the source.\<close>

abbreviation newline :: char where
  "newline \<equiv> CHR 0x0A"

subsection \<open>Integer conversion\<close>

text \<open>
  \<^verbatim>\<open>std::stoi(str)\<close> in base 10: it skips leading white space, reads an optional
  sign and the longest run of digits, and ignores what follows. It throws
  \<^verbatim>\<open>std::invalid_argument\<close> when there is no digit to read and \<^verbatim>\<open>std::out_of_range\<close>
  when the number does not fit the 32-bit \<^verbatim>\<open>int\<close>.
\<close>

datatype exn = invalid_argument | out_of_range

definition digit_value :: "char \<Rightarrow> int" where
  "digit_value c = int (of_char c) - 48"

definition decimal :: "string \<Rightarrow> int" where
  "decimal ds = foldl (\<lambda>a c. 10 * a + digit_value c) 0 ds"

definition INT_MAX :: int where
  "INT_MAX = 2147483647"

definition INT_MIN :: int where
  "INT_MIN = - 2147483648"

definition stoi :: "string \<Rightarrow> exn + int" where
  "stoi str =
    (let s1 = dropWhile isspace str;
         neg = (s1 \<noteq> [] \<and> hd s1 = CHR ''-'');
         s2 = (if s1 \<noteq> [] \<and> (hd s1 = CHR ''-'' \<or> hd s1 = CHR ''+'') then tl s1 else s1);
         ds = takeWhile isdigit s2;
         v = (if neg then - decimal ds else decimal ds)
     in if ds = [] then Inl invalid_argument
        else if v < INT_MIN \<or> INT_MAX < v then Inl out_of_range
        else Inr v)"

text \<open>
  \<^verbatim>\<open>std::cout << value\<close> for an \<^verbatim>\<open>int\<close>: the decimal digits, after a minus sign
  when the value is negative.
\<close>

fun show_nat :: "nat \<Rightarrow> string" where
  "show_nat n = (if n < 10 then [''0123456789'' ! n] else show_nat (n div 10) @ [''0123456789'' ! (n mod 10)])"

declare show_nat.simps [simp del]

definition show_int :: "int \<Rightarrow> string" where
  "show_int i = (if i < 0 then CHR ''-'' # show_nat (nat (- i)) else show_nat (nat i))"

section \<open>Token and Lexer\<close>

datatype TokenType = Identifier | Number | Keyword | Symbol | EndOfFile | Unknown

text \<open>
  The fields of \<^verbatim>\<open>struct Token\<close>: \<^verbatim>\<open>type\<close>, \<^verbatim>\<open>value\<close>, \<^verbatim>\<open>line\<close> and
  \<^verbatim>\<open>column\<close>, prefixed since the lexer has a line and a column of its own.
\<close>

record Token =
  tok_type :: TokenType
  tok_value :: string
  tok_line :: int
  tok_column :: int

text \<open>
  The lexer's members. The position is a \<^verbatim>\<open>size_t\<close> that never passes the size of
  the buffer; line and column are counters of type \<^verbatim>\<open>int\<close>, taken as integers
  (a buffer of fewer than \<open>2^31\<close> characters cannot overflow them, nor the
  \<^verbatim>\<open>int start\<close> of the scanning functions).
\<close>

record Lexer =
  src :: string
  pos :: nat
  line :: int
  column :: int

text \<open>The constructor \<^verbatim>\<open>Lexer(source)\<close>.\<close>

definition new_Lexer :: "string \<Rightarrow> Lexer" where
  "new_Lexer source = \<lparr>src = source, pos = 0, line = 1, column = 1\<rparr>"

text \<open>\<^verbatim>\<open>Lexer::advance\<close>; every caller has checked \<open>pos < size\<close> first.\<close>

definition advance :: "Lexer \<Rightarrow> Lexer" where
  "advance lx =
    (if src lx ! pos lx = newline
     then lx\<lparr>line := line lx + 1, column := 1, pos := pos lx + 1\<rparr>
     else lx\<lparr>column := column lx + 1, pos := pos lx + 1\<rparr>)"

text \<open>
  The three scanning loops of the lexer have one shape,
  \<^verbatim>\<open>while (pos < src.size() && P(src[pos])) advance();\<close>
  with \<open>P\<close> one of \<open>isspace\<close>, \<open>isalnum\<close> and \<open>isdigit\<close>.
\<close>

function advance_while :: "(char \<Rightarrow> bool) \<Rightarrow> Lexer \<Rightarrow> Lexer" where
  "advance_while P lx =
    (if pos lx < length (src lx) \<and> P (src lx ! pos lx) then advance_while P (advance lx) else lx)"
  by pat_completeness auto
termination
  by (relation "measure (\<lambda>(P, lx). length (src lx) - pos lx)") (auto simp: advance_def)

declare advance_while.simps [simp del]

definition identifier_tok :: "Lexer \<Rightarrow> Token \<times> Lexer" where
  "identifier_tok lx0 =
    (let start = pos lx0;
         lx = advance_while isalnum lx0;
         val = substr (src lx) start (pos lx - start)
     in (\<lparr>tok_type = (if val = ''int'' \<or> val = ''return'' then Keyword else Identifier),
          tok_value = val, tok_line = line lx, tok_column = column lx\<rparr>, lx))"

definition number :: "Lexer \<Rightarrow> Token \<times> Lexer" where
  "number lx0 =
    (let start = pos lx0;
         lx = advance_while isdigit lx0
     in (\<lparr>tok_type = Number, tok_value = substr (src lx) start (pos lx - start),
          tok_line = line lx, tok_column = column lx\<rparr>, lx))"

definition symbol :: "Lexer \<Rightarrow> Token \<times> Lexer" where
  "symbol lx =
    (\<lparr>tok_type = Symbol, tok_value = [src lx ! pos lx], tok_line = line lx, tok_column = column lx\<rparr>,
     lx\<lparr>pos := pos lx + 1\<rparr>)"

definition nextToken :: "Lexer \<Rightarrow> Token \<times> Lexer" where
  "nextToken lx0 =
    (let lx = advance_while isspace lx0 in
     if pos lx \<ge> length (src lx)
     then (\<lparr>tok_type = EndOfFile, tok_value = [], tok_line = line lx, tok_column = column lx\<rparr>, lx)
     else if isalpha (src lx ! pos lx) then identifier_tok lx
     else if isdigit (src lx ! pos lx) then number lx
     else if ispunct (src lx ! pos lx) then symbol lx
     else (\<lparr>tok_type = Unknown, tok_value = [src lx ! pos lx], tok_line = line lx, tok_column = column lx\<rparr>,
           lx\<lparr>pos := pos lx + 1\<rparr>))"

section \<open>AST nodes\<close>

text \<open>
  The three node classes as one datatype. The child of a declaration is an
  \<^verbatim>\<open>ASTPtr\<close>, a shared pointer that may be null: an optional node. The arguments of
  \<open>DeclarationNode\<close> are \<^verbatim>\<open>type\<close>, \<^verbatim>\<open>name\<close> and \<^verbatim>\<open>value\<close>.
\<close>

datatype ASTNode =
    NumberNode int
  | IdentifierNode string
  | DeclarationNode string string "ASTNode option"

text \<open>
  \<^verbatim>\<open>print(indent)\<close> writes to \<^verbatim>\<open>std::cout\<close>; the model returns the text written.
  The indent is never negative: the callers pass 0 and \<open>indent + 2\<close>.
\<close>

fun print :: "ASTNode \<Rightarrow> nat \<Rightarrow> string" where
  "print (NumberNode val) indent =
     replicate indent CHR '' '' @ ''Number: '' @ show_int val @ [newline]"
| "print (IdentifierNode name) indent =
     replicate indent CHR '' '' @ ''Identifier: '' @ name @ [newline]"
| "print (DeclarationNode type name val) indent =
     replicate indent CHR '' '' @ ''Declaration: '' @ type @ '' '' @ name @ [newline] @
     (case val of None \<Rightarrow> [] | Some child \<Rightarrow> print child (indent + 2))"

section \<open>Symbol table\<close>

text \<open>
  The table is a \<^verbatim>\<open>std::map\<close> from names to types. Each member function takes the
  table and returns the table it leaves behind, next to its result.
\<close>

type_synonym SymbolTable = "string \<rightharpoonup> string"

definition new_SymbolTable :: SymbolTable where
  "new_SymbolTable = Map.empty"

definition declare_symbol :: "SymbolTable \<Rightarrow> string \<Rightarrow> string \<Rightarrow> SymbolTable" where
  "declare_symbol symbols name type = symbols(name \<mapsto> type)"

definition exists :: "SymbolTable \<Rightarrow> string \<Rightarrow> bool \<times> SymbolTable" where
  "exists symbols name = (symbols name \<noteq> None, symbols)"

definition typeOf :: "SymbolTable \<Rightarrow> string \<Rightarrow> string \<times> SymbolTable" where
  "typeOf symbols name = (case symbols name of Some type \<Rightarrow> type | None \<Rightarrow> [], symbols)"

text \<open>A sequence of \<^verbatim>\<open>declare\<close> calls, in order, each with its name and its type.\<close>

definition declare_all :: "SymbolTable \<Rightarrow> (string \<times> string) list \<Rightarrow> SymbolTable" where
  "declare_all symbols calls = foldl (\<lambda>st (name, type). declare_symbol st name type) symbols calls"

section \<open>Parser\<close>

text \<open>
  The parser holds a reference to the lexer and the current token; its state is the pair
  of both. The constructor reads the first token.
\<close>

record Parser =
  lexer :: Lexer
  current :: Token

definition parser_advance :: "Parser \<Rightarrow> Parser" where
  "parser_advance p = (let (tok, lx) = nextToken (lexer p) in \<lparr>lexer = lx, current = tok\<rparr>)"

definition new_Parser :: "Lexer \<Rightarrow> Parser" where
  "new_Parser lex0 = (let (tok, lx) = nextToken lex0 in \<lparr>lexer = lx, current = tok\<rparr>)"

text \<open>The messages written to \<^verbatim>\<open>std::cerr\<close>; \<open>CHR 0x27\<close> is the single quote.\<close>

definition msg_identifier :: string where
  "msg_identifier = ''Expected identifier after '' @ [CHR 0x27] @ ''int'' @ [CHR 0x27, newline]"

definition msg_equals :: string where
  "msg_equals = ''Expected '' @ [CHR 0x27] @ ''='' @ [CHR 0x27] @ '' after identifier'' @ [newline]"

definition msg_number :: string where
  "msg_number = ''Expected number after '' @ [CHR 0x27] @ ''='' @ [CHR 0x27, newline]"

definition msg_semicolon :: string where
  "msg_semicolon = ''Expected '' @ [CHR 0x27] @ '';'' @ [CHR 0x27] @ '' at the end of declaration'' @ [newline]"

definition msg_unexpected :: "string \<Rightarrow> string" where
  "msg_unexpected val = ''Unexpected token: '' @ val @ [newline]"

text \<open>
  \<^verbatim>\<open>Parser::parseDeclaration\<close>. A call either throws (the exception of
  \<^verbatim>\<open>std::stoi\<close>, which nothing catches) or returns; a return gives the pointer
  (\<open>None\<close> for \<^verbatim>\<open>nullptr\<close>), the text written to \<^verbatim>\<open>std::cerr\<close> and the parser
  as the call leaves it.
\<close>

definition parseDeclaration :: "Parser \<Rightarrow> exn + (ASTNode option \<times> string \<times> Parser)" where
  "parseDeclaration p0 =
    (if tok_type (current p0) = Keyword \<and> tok_value (current p0) = ''int'' then
       let type = tok_value (current p0);
           p1 = parser_advance p0
       in if tok_type (current p1) \<noteq> Identifier then Inr (None, msg_identifier, p1)
       else
       let name = tok_value (current p1);
           p2 = parser_advance p1
       in if tok_type (current p2) \<noteq> Symbol \<or> tok_value (current p2) \<noteq> ''='' then Inr (None, msg_equals, p2)
       else
       let p3 = parser_advance p2
       in if tok_type (current p3) \<noteq> Number then Inr (None, msg_number, p3)
       else
       case stoi (tok_value (current p3)) of
         Inl e \<Rightarrow> Inl e
       | Inr val \<Rightarrow>
           let p4 = parser_advance p3
           in if tok_type (current p4) \<noteq> Symbol \<or> tok_value (current p4) \<noteq> '';'' then Inr (None, msg_semicolon, p4)
           else
           let p5 = parser_advance p4
           in Inr (Some (DeclarationNode type name (Some (NumberNode val))), [], p5)
     else Inr (None, msg_unexpected (tok_value (current p0)), p0))"

text \<open>
  The body of \<^verbatim>\<open>main\<close> for a given source text: what it writes to \<^verbatim>\<open>std::cout\<close>
  and to \<^verbatim>\<open>std::cerr\<close>.
\<close>

definition main_body :: "string \<Rightarrow> exn + (string \<times> string)" where
  "main_body source =
    (case parseDeclaration (new_Parser (new_Lexer source)) of
       Inl e \<Rightarrow> Inl e
     | Inr (ast, err, p) \<Rightarrow> Inr (case ast of None \<Rightarrow> [] | Some node \<Rightarrow> print node 0, err))"

section \<open>Vocabulary of the specification\<close>

text \<open>Calling \<^verbatim>\<open>nextToken\<close> \<open>n\<close> times in a row: the tokens returned, in order.\<close>

fun next_tokens :: "nat \<Rightarrow> Lexer \<Rightarrow> Token list" where
  "next_tokens 0 lx = []"
| "next_tokens (Suc n) lx = (let (tok, lx') = nextToken lx in tok # next_tokens n lx')"

text \<open>
  The five checkpoints of the declaration grammar, in the order \<^verbatim>\<open>parseDeclaration\<close>
  tests them, and the token each one lets pass.
\<close>

datatype Checkpoint = Start | AfterType | AfterName | AfterEquals | AfterValue

fun expects :: "Checkpoint \<Rightarrow> Token \<Rightarrow> bool" where
  "expects Start tok = (tok_type tok = Keyword \<and> tok_value tok = ''int'')"
| "expects AfterType tok = (tok_type tok = Identifier)"
| "expects AfterName tok = (tok_type tok = Symbol \<and> tok_value tok = ''='')"
| "expects AfterEquals tok = (tok_type tok = Number)"
| "expects AfterValue tok = (tok_type tok = Symbol \<and> tok_value tok = '';'')"

text \<open>
  The parser at a checkpoint, when nothing but \<^verbatim>\<open>advance()\<close> happened to it since the
  call began: one token read for every checkpoint before.
\<close>

fun parser_at :: "Checkpoint \<Rightarrow> Parser \<Rightarrow> Parser" where
  "parser_at Start p = p"
| "parser_at AfterType p = parser_advance p"
| "parser_at AfterName p = parser_advance (parser_advance p)"
| "parser_at AfterEquals p = parser_advance (parser_advance (parser_advance p))"
| "parser_at AfterValue p = parser_advance (parser_advance (parser_advance (parser_advance p)))"

definition passes :: "Checkpoint \<Rightarrow> Parser \<Rightarrow> bool" where
  "passes c p = expects c (current (parser_at c p))"

fun before :: "Checkpoint \<Rightarrow> Checkpoint list" where
  "before Start = []"
| "before AfterType = [Start]"
| "before AfterName = [Start, AfterType]"
| "before AfterEquals = [Start, AfterType, AfterName]"
| "before AfterValue = [Start, AfterType, AfterName, AfterEquals]"

text \<open>The diagnostic of a checkpoint for the token that fails it.\<close>

fun diagnostic :: "Checkpoint \<Rightarrow> Token \<Rightarrow> string" where
  "diagnostic Start tok = msg_unexpected (tok_value tok)"
| "diagnostic AfterType tok = msg_identifier"
| "diagnostic AfterName tok = msg_equals"
| "diagnostic AfterEquals tok = msg_number"
| "diagnostic AfterValue tok = msg_semicolon"

text \<open>
  A call fails at checkpoint \<open>c\<close> when the checkpoints before \<open>c\<close> pass and \<open>c\<close>
  does not. The fifth checkpoint is tested only after the conversion of the Number
  lexeme has returned, that is, when the value of the lexeme fits an \<^verbatim>\<open>int\<close>.
\<close>

definition fails_at :: "Checkpoint \<Rightarrow> Parser \<Rightarrow> bool" where
  "fails_at c p =
     ((\<forall>b \<in> set (before c). passes b p) \<and> \<not> passes c p \<and>
      (c = AfterValue \<longrightarrow> decimal (tok_value (current (parser_at AfterEquals p))) \<le> INT_MAX))"

section \<open>Facts about the scanning loops\<close>

lemmas ctype_defs = isspace_def isalpha_def isdigit_def ispunct_def isalnum_def

lemmas lexer_defs = nextToken_def new_Lexer_def advance_while.simps advance_def
  identifier_tok_def number_def symbol_def substr_def Let_def

lemmas parser_defs = parseDeclaration_def new_Parser_def parser_advance_def
  stoi_def decimal_def digit_value_def INT_MAX_def INT_MIN_def

lemmas msg_defs = msg_identifier_def msg_equals_def msg_number_def msg_semicolon_def
  msg_unexpected_def

lemma src_advance: "src (advance lx) = src lx"
  by (simp add: advance_def)

lemma pos_advance: "pos (advance lx) = Suc (pos lx)"
  by (simp add: advance_def)

lemma advance_while_stop:
  "\<not> (pos lx < length (src lx) \<and> P (src lx ! pos lx)) \<Longrightarrow> advance_while P lx = lx"
  by (subst advance_while.simps) auto

lemma advance_while_step:
  "pos lx < length (src lx) \<Longrightarrow> P (src lx ! pos lx) \<Longrightarrow>
   advance_while P lx = advance_while P (advance lx)"
  by (subst advance_while.simps) simp

lemma src_advance_while: "src (advance_while P lx) = src lx"
proof (induction P lx rule: advance_while.induct)
  case (1 P lx)
  show ?case
  proof (cases "pos lx < length (src lx) \<and> P (src lx ! pos lx)")
    case True
    with 1 show ?thesis by (simp add: advance_while_step src_advance)
  next
    case False
    then show ?thesis by (simp add: advance_while_stop)
  qed
qed

text \<open>A scanning loop stops right after the longest run of characters that satisfy its test.\<close>

lemma pos_advance_while:
  "pos (advance_while P lx) = pos lx + length (takeWhile P (drop (pos lx) (src lx)))"
proof (induction P lx rule: advance_while.induct)
  case (1 P lx)
  show ?case
  proof (cases "pos lx < length (src lx) \<and> P (src lx ! pos lx)")
    case True
    then have "drop (pos lx) (src lx) = src lx ! pos lx # drop (Suc (pos lx)) (src lx)"
      by (simp add: Cons_nth_drop_Suc)
    with True have "length (takeWhile P (drop (pos lx) (src lx))) =
        Suc (length (takeWhile P (drop (Suc (pos lx)) (src lx))))"
      by simp
    with 1 True show ?thesis by (simp add: advance_while_step src_advance pos_advance)
  next
    case False
    have "takeWhile P (drop (pos lx) (src lx)) = []"
    proof (cases "pos lx < length (src lx)")
      case True
      with False have "\<not> P (src lx ! pos lx)" by simp
      with True show ?thesis by (simp add: takeWhile_eq_Nil_iff hd_drop_conv_nth)
    next
      case False
      then show ?thesis by simp
    qed
    with False show ?thesis by (simp add: advance_while_stop)
  qed
qed

lemma substr_advance_while:
  "substr (src (advance_while P lx)) (pos lx) (pos (advance_while P lx) - pos lx) =
     takeWhile P (drop (pos lx) (src lx))"
  by (simp add: substr_def src_advance_while pos_advance_while takeWhile_eq_take [symmetric])

lemma isalpha_not_isspace: "isalpha c \<Longrightarrow> \<not> isspace c"
  by (auto simp: ctype_defs Let_def)

lemma tok_identifier:
  "fst (identifier_tok lx) =
     \<lparr>tok_type = (if takeWhile isalnum (drop (pos lx) (src lx)) = ''int'' \<or>
                     takeWhile isalnum (drop (pos lx) (src lx)) = ''return'' then Keyword else Identifier),
      tok_value = takeWhile isalnum (drop (pos lx) (src lx)),
      tok_line = line (advance_while isalnum lx), tok_column = column (advance_while isalnum lx)\<rparr>"
  by (simp add: identifier_tok_def Let_def substr_advance_while)

lemma tok_number:
  "fst (number lx) =
     \<lparr>tok_type = Number, tok_value = takeWhile isdigit (drop (pos lx) (src lx)),
      tok_line = line (advance_while isdigit lx), tok_column = column (advance_while isdigit lx)\<rparr>"
  by (simp add: number_def Let_def substr_advance_while)

text \<open>A Number token is a run of digits, and not an empty one.\<close>

lemma nextToken_Number:
  assumes "tok_type (fst (nextToken lx)) = Number"
  shows "tok_value (fst (nextToken lx)) \<noteq> [] \<and>
         (\<forall>c \<in> set (tok_value (fst (nextToken lx))). isdigit c)"
proof -
  define lx1 where "lx1 = advance_while isspace lx"
  have branch: "pos lx1 < length (src lx1) \<and> isdigit (src lx1 ! pos lx1) \<and> nextToken lx = number lx1"
    using assms unfolding nextToken_def Let_def lx1_def [symmetric]
    by (auto simp: tok_identifier symbol_def split: if_splits)
  then have "drop (pos lx1) (src lx1) = src lx1 ! pos lx1 # drop (Suc (pos lx1)) (src lx1)"
    by (simp add: Cons_nth_drop_Suc)
  with branch have "takeWhile isdigit (drop (pos lx1) (src lx1)) \<noteq> []"
    by simp
  moreover have "\<forall>c \<in> set (takeWhile isdigit (drop (pos lx1) (src lx1))). isdigit c"
    by (auto dest: set_takeWhileD)
  ultimately show ?thesis using branch by (simp add: tok_number)
qed

subsection \<open>The position a token carries\<close>

text \<open>A scanning loop is \<^verbatim>\<open>advance()\<close> once for every character of the run.\<close>

lemma advance_while_funpow:
  "advance_while P lx = (advance ^^ length (takeWhile P (drop (pos lx) (src lx)))) lx"
proof (induction P lx rule: advance_while.induct)
  case (1 P lx)
  show ?case
  proof (cases "pos lx < length (src lx) \<and> P (src lx ! pos lx)")
    case True
    then have "drop (pos lx) (src lx) = src lx ! pos lx # drop (Suc (pos lx)) (src lx)"
      by (simp add: Cons_nth_drop_Suc)
    with True have "length (takeWhile P (drop (pos lx) (src lx))) =
        Suc (length (takeWhile P (drop (Suc (pos lx)) (src lx))))"
      by simp
    with 1 True show ?thesis
      by (simp add: advance_while_step src_advance pos_advance funpow_swap1)
  next
    case False
    have "pos (advance_while P lx) = pos lx"
      using False by (simp add: advance_while_stop)
    then have "length (takeWhile P (drop (pos lx) (src lx))) = 0"
      by (simp add: pos_advance_while)
    with False show ?thesis by (simp add: advance_while_stop)
  qed
qed

text \<open>Every token carries the line and the column that the lexer holds when it returns.\<close>

lemma token_position:
  "tok_line (fst (nextToken lx)) = line (snd (nextToken lx)) \<and>
   tok_column (fst (nextToken lx)) = column (snd (nextToken lx))"
  by (simp add: nextToken_def identifier_tok_def number_def symbol_def Let_def)

lemma snd_identifier_tok:
  "snd (identifier_tok lx) = (advance ^^ length (tok_value (fst (identifier_tok lx)))) lx"
proof -
  have "snd (identifier_tok lx) = advance_while isalnum lx"
    by (simp add: identifier_tok_def Let_def)
  also have "\<dots> = (advance ^^ length (takeWhile isalnum (drop (pos lx) (src lx)))) lx"
    by (rule advance_while_funpow)
  finally show ?thesis by (simp add: tok_identifier)
qed

lemma snd_number:
  "snd (number lx) = (advance ^^ length (tok_value (fst (number lx)))) lx"
proof -
  have "snd (number lx) = advance_while isdigit lx"
    by (simp add: number_def Let_def)
  also have "\<dots> = (advance ^^ length (takeWhile isdigit (drop (pos lx) (src lx)))) lx"
    by (rule advance_while_funpow)
  finally show ?thesis by (simp add: tok_number)
qed

text \<open>
  For an Identifier, Keyword or Number token the lexer has gone through
  \<^verbatim>\<open>advance()\<close> for each character of the lexeme, white space before it apart: line
  and column are those behind the lexeme.
\<close>

lemma run_token_position:
  assumes "tok_type (fst (nextToken lx)) = Identifier \<or> tok_type (fst (nextToken lx)) = Keyword \<or>
           tok_type (fst (nextToken lx)) = Number"
  shows "snd (nextToken lx) =
           (advance ^^ length (tok_value (fst (nextToken lx)))) (advance_while isspace lx)"
proof -
  define lx1 where "lx1 = advance_while isspace lx"
  have "nextToken lx = identifier_tok lx1 \<or> nextToken lx = number lx1"
    using assms unfolding nextToken_def Let_def lx1_def [symmetric]
    by (auto simp: symbol_def split: if_splits)
  then show ?thesis
    using snd_identifier_tok [of lx1] snd_number [of lx1] by (auto simp: lx1_def)
qed

text \<open>
  For a Symbol or Unknown token the position moves by one and the column does not move:
  the token carries the line and the column at which its lexeme starts.
\<close>

lemma one_char_token_position:
  assumes "tok_type (fst (nextToken lx)) = Symbol \<or> tok_type (fst (nextToken lx)) = Unknown"
  shows "pos (snd (nextToken lx)) = Suc (pos (advance_while isspace lx)) \<and>
         tok_line (fst (nextToken lx)) = line (advance_while isspace lx) \<and>
         tok_column (fst (nextToken lx)) = column (advance_while isspace lx) \<and>
         column (snd (nextToken lx)) = column (advance_while isspace lx)"
  using assms
  by (auto simp: nextToken_def tok_identifier tok_number symbol_def Let_def split: if_splits)

section \<open>Facts about the parser\<close>

lemma diagnostic_inj: "diagnostic c tok = diagnostic c' tok' \<Longrightarrow> c = c'"
  by (cases c; cases c') (simp_all add: msg_defs)

lemma fail_Start:
  "\<not> passes Start p \<Longrightarrow> parseDeclaration p = Inr (None, diagnostic Start (current p), p)"
  by (auto simp add: parseDeclaration_def passes_def)

lemma fail_AfterType:
  "passes Start p \<Longrightarrow> \<not> passes AfterType p \<Longrightarrow>
   parseDeclaration p = Inr (None, msg_identifier, parser_at AfterType p)"
  by (auto simp add: parseDeclaration_def passes_def Let_def)

lemma fail_AfterName:
  "passes Start p \<Longrightarrow> passes AfterType p \<Longrightarrow> \<not> passes AfterName p \<Longrightarrow>
   parseDeclaration p = Inr (None, msg_equals, parser_at AfterName p)"
  by (auto simp add: parseDeclaration_def passes_def Let_def)

lemma fail_AfterEquals:
  "passes Start p \<Longrightarrow> passes AfterType p \<Longrightarrow> passes AfterName p \<Longrightarrow> \<not> passes AfterEquals p \<Longrightarrow>
   parseDeclaration p = Inr (None, msg_number, parser_at AfterEquals p)"
  by (auto simp add: parseDeclaration_def passes_def Let_def)

text \<open>Past the fourth checkpoint the call converts the lexeme, then tests the fifth.\<close>

lemma reach_conversion:
  "passes Start p \<Longrightarrow> passes AfterType p \<Longrightarrow> passes AfterName p \<Longrightarrow> passes AfterEquals p \<Longrightarrow>
   parseDeclaration p =
     (case stoi (tok_value (current (parser_at AfterEquals p))) of
        Inl e \<Rightarrow> Inl e
      | Inr val \<Rightarrow>
          if passes AfterValue p
          then Inr (Some (DeclarationNode ''int'' (tok_value (current (parser_at AfterType p)))
                       (Some (NumberNode val))), [], parser_advance (parser_at AfterValue p))
          else Inr (None, msg_semicolon, parser_at AfterValue p))"
  by (auto simp add: parseDeclaration_def passes_def Let_def split: sum.splits)

lemma current_parser_advance: "current (parser_advance q) = fst (nextToken (lexer q))"
  by (simp add: parser_advance_def split: prod.splits)

subsection \<open>Conversion of a run of digits\<close>

lemma digit_value_nonneg: "isdigit c \<Longrightarrow> 0 \<le> digit_value c"
  by (simp add: isdigit_def digit_value_def Let_def)

lemma foldl_digits_nonneg:
  "\<forall>c \<in> set ds. isdigit c \<Longrightarrow> 0 \<le> a \<Longrightarrow> 0 \<le> foldl (\<lambda>a c. 10 * a + digit_value c) a ds"
proof (induction ds arbitrary: a)
  case Nil
  then show ?case by simp
next
  case (Cons d ds)
  then have "0 \<le> 10 * a + digit_value d"
    using digit_value_nonneg [of d] by simp
  with Cons show ?case by simp
qed

lemma decimal_nonneg: "\<forall>c \<in> set ds. isdigit c \<Longrightarrow> 0 \<le> decimal ds"
  by (simp add: decimal_def foldl_digits_nonneg)

lemma isdigit_not_isspace: "isdigit c \<Longrightarrow> \<not> isspace c"
  by (auto simp: ctype_defs Let_def)

lemma isdigit_not_sign: "isdigit c \<Longrightarrow> c \<noteq> CHR ''-'' \<and> c \<noteq> CHR ''+''"
  by (auto simp: isdigit_def Let_def)

text \<open>
  On a run of digits \<^verbatim>\<open>std::stoi\<close> has nothing to skip and no sign to read: it returns
  the value of the run, or throws when the value is above \<open>INT_MAX\<close>.
\<close>

lemma stoi_digits:
  assumes "ds \<noteq> []" and "\<forall>c \<in> set ds. isdigit c"
  shows "stoi ds = (if INT_MAX < decimal ds then Inl out_of_range else Inr (decimal ds))"
proof -
  from assms obtain d ds' where ds: "ds = d # ds'" and d: "isdigit d"
    by (cases ds) auto
  from ds d have ws: "dropWhile isspace ds = ds"
    by (simp add: isdigit_not_isspace)
  from assms(2) have run: "takeWhile isdigit ds = ds"
    by (simp add: takeWhile_eq_all_conv)
  from assms(2) have "0 \<le> decimal ds" by (rule decimal_nonneg)
  then have low: "\<not> decimal ds < INT_MIN" by (simp add: INT_MIN_def)
  from ds d have sign: "hd ds \<noteq> CHR ''-''" "hd ds \<noteq> CHR ''+''"
    using isdigit_not_sign [of d] by simp_all
  show ?thesis
    using assms(1) low sign by (simp add: stoi_def ws run Let_def)
qed

text \<open>
  The token that passes the fourth checkpoint comes from \<^verbatim>\<open>nextToken\<close>: its lexeme
  is a run of digits, and the conversion returns the value of the run or throws.
\<close>

lemma stoi_Number_lexeme:
  assumes "passes AfterEquals p"
  shows "tok_value (current (parser_at AfterEquals p)) \<noteq> [] \<and>
         (\<forall>c \<in> set (tok_value (current (parser_at AfterEquals p))). isdigit c) \<and>
         stoi (tok_value (current (parser_at AfterEquals p))) =
           (if INT_MAX < decimal (tok_value (current (parser_at AfterEquals p)))
            then Inl out_of_range
            else Inr (decimal (tok_value (current (parser_at AfterEquals p)))))"
proof -
  let ?lexeme = "tok_value (current (parser_at AfterEquals p))"
  from assms have "tok_type (fst (nextToken (lexer (parser_at AfterName p)))) = Number"
    by (simp add: passes_def current_parser_advance)
  then have run: "?lexeme \<noteq> [] \<and> (\<forall>c \<in> set ?lexeme. isdigit c)"
    using nextToken_Number [of "lexer (parser_at AfterName p)"]
    by (simp add: current_parser_advance)
  then have "stoi ?lexeme =
      (if INT_MAX < decimal ?lexeme then Inl out_of_range else Inr (decimal ?lexeme))"
    by (simp add: stoi_digits)
  with run show ?thesis by simp
qed

subsection \<open>The outcomes of a call\<close>

lemma present_iff_stoi:
  "parseDeclaration p = Inr (Some node, err, p') \<longleftrightarrow>
     passes Start p \<and> passes AfterType p \<and> passes AfterName p \<and> passes AfterEquals p \<and>
     passes AfterValue p \<and>
     (\<exists>val. stoi (tok_value (current (parser_at AfterEquals p))) = Inr val \<and>
        node = DeclarationNode ''int'' (tok_value (current (parser_at AfterType p)))
                 (Some (NumberNode val))) \<and>
     err = [] \<and> p' = parser_advance (parser_at AfterValue p)"
  unfolding parseDeclaration_def Let_def passes_def
  by (auto split: sum.splits)

text \<open>A call that fails at a checkpoint returns no tree, with the message of that checkpoint.\<close>

lemma fails_at_result:
  assumes "fails_at c p"
  shows "parseDeclaration p = Inr (None, diagnostic c (current (parser_at c p)), parser_at c p)"
proof (cases c)
  case Start
  with assms show ?thesis by (simp add: fails_at_def fail_Start)
next
  case AfterType
  with assms show ?thesis by (simp add: fails_at_def fail_AfterType)
next
  case AfterName
  with assms show ?thesis by (simp add: fails_at_def fail_AfterName)
next
  case AfterEquals
  with assms show ?thesis by (simp add: fails_at_def fail_AfterEquals)
next
  case AfterValue
  with assms have four: "passes Start p" "passes AfterType p" "passes AfterName p"
      "passes AfterEquals p"
    and five: "\<not> passes AfterValue p"
    and conv: "decimal (tok_value (current (parser_at AfterEquals p))) \<le> INT_MAX"
    by (simp_all add: fails_at_def)
  from stoi_Number_lexeme [OF four(4)] conv
  have "stoi (tok_value (current (parser_at AfterEquals p))) =
      Inr (decimal (tok_value (current (parser_at AfterEquals p))))"
    by simp
  with reach_conversion [OF four] five AfterValue show ?thesis by simp
qed

text \<open>A call that returns no tree has failed at a checkpoint.\<close>

lemma absent_result_fails_at:
  assumes "parseDeclaration p = Inr (None, err, p')"
  shows "\<exists>c. fails_at c p \<and> err = diagnostic c (current (parser_at c p)) \<and> p' = parser_at c p"
proof -
  consider (s) "\<not> passes Start p"
    | (t) "passes Start p" "\<not> passes AfterType p"
    | (n) "passes Start p" "passes AfterType p" "\<not> passes AfterName p"
    | (e) "passes Start p" "passes AfterType p" "passes AfterName p" "\<not> passes AfterEquals p"
    | (v) "passes Start p" "passes AfterType p" "passes AfterName p" "passes AfterEquals p"
    by blast
  then obtain c where "fails_at c p"
  proof cases
    case s
    then have "fails_at Start p" by (simp add: fails_at_def)
    then show ?thesis by (rule that)
  next
    case t
    then have "fails_at AfterType p" by (simp add: fails_at_def)
    then show ?thesis by (rule that)
  next
    case n
    then have "fails_at AfterName p" by (simp add: fails_at_def)
    then show ?thesis by (rule that)
  next
    case e
    then have "fails_at AfterEquals p" by (simp add: fails_at_def)
    then show ?thesis by (rule that)
  next
    case v
    from stoi_Number_lexeme [OF v(4)] reach_conversion [OF v] assms
    have "\<not> passes AfterValue p \<and>
        decimal (tok_value (current (parser_at AfterEquals p))) \<le> INT_MAX"
      by (auto split: if_splits)
    with v have "fails_at AfterValue p" by (simp add: fails_at_def)
    then show ?thesis by (rule that)
  qed
  with assms fails_at_result [of c p] show ?thesis by auto
qed

subsection \<open>The parser on some sources\<close>

lemma passes_valid:
  "passes Start (new_Parser (new_Lexer ''int x = 42;'')) \<and>
   passes AfterType (new_Parser (new_Lexer ''int x = 42;'')) \<and>
   passes AfterName (new_Parser (new_Lexer ''int x = 42;'')) \<and>
   passes AfterEquals (new_Parser (new_Lexer ''int x = 42;'')) \<and>
   passes AfterValue (new_Parser (new_Lexer ''int x = 42;''))"
  by (simp add: passes_def parser_defs lexer_defs ctype_defs)

lemma tokens_valid:
  "tok_value (current (parser_at AfterType (new_Parser (new_Lexer ''int x = 42;'')))) = ''x'' \<and>
   stoi (tok_value (current (parser_at AfterEquals (new_Parser (new_Lexer ''int x = 42;''))))) = Inr 42"
  by (simp add: parser_defs lexer_defs ctype_defs)

lemma parse_overflow:
  "parseDeclaration (new_Parser (new_Lexer ''int x = 2147483648;'')) = Inl out_of_range"
  by (simp add: parser_defs lexer_defs ctype_defs)

lemma passes_overflow:
  "passes Start (new_Parser (new_Lexer ''int x = 2147483648;'')) \<and>
   passes AfterType (new_Parser (new_Lexer ''int x = 2147483648;'')) \<and>
   passes AfterName (new_Parser (new_Lexer ''int x = 2147483648;'')) \<and>
   passes AfterEquals (new_Parser (new_Lexer ''int x = 2147483648;'')) \<and>
   tok_value (current (parser_at AfterEquals (new_Parser (new_Lexer ''int x = 2147483648;'')))) =
     ''2147483648''"
  by (simp add: passes_def parser_defs lexer_defs ctype_defs)

lemma parse_no_number:
  "parseDeclaration (new_Parser (new_Lexer ''int x = y;'')) =
     Inr (None, msg_number,
          \<lparr>lexer = \<lparr>src = ''int x = y;'', pos = 9, line = 1, column = 9\<rparr>,
           current = \<lparr>tok_type = Identifier, tok_value = ''y'', tok_line = 1, tok_column = 9\<rparr>\<rparr>)"
  by (simp add: parser_defs lexer_defs ctype_defs)

lemma not_sublist_msg_number: "\<not> sublist ''y'' msg_number"
proof
  assume "sublist ''y'' msg_number"
  then have "set ''y'' \<subseteq> set msg_number" by (rule set_mono_sublist)
  then show False by (simp add: msg_number_def)
qed

lemma lexeme_valid:
  "tok_value (current (parser_at AfterEquals (new_Parser (new_Lexer ''int x = 42;'')))) = ''42''"
  by (simp add: parser_defs lexer_defs ctype_defs)

lemma passes_seven:
  "passes Start (new_Parser (new_Lexer ''int n = 7;'')) \<and>
   passes AfterType (new_Parser (new_Lexer ''int n = 7;'')) \<and>
   passes AfterName (new_Parser (new_Lexer ''int n = 7;'')) \<and>
   passes AfterEquals (new_Parser (new_Lexer ''int n = 7;'')) \<and>
   passes AfterValue (new_Parser (new_Lexer ''int n = 7;'')) \<and>
   tok_value (current (parser_at AfterType (new_Parser (new_Lexer ''int n = 7;'')))) = ''n'' \<and>
   tok_value (current (parser_at AfterEquals (new_Parser (new_Lexer ''int n = 7;'')))) = ''7''"
  by (simp add: passes_def parser_defs lexer_defs ctype_defs)

lemma fails_no_number: "fails_at AfterEquals (new_Parser (new_Lexer ''int x = y;''))"
  by (simp add: fails_at_def passes_def parser_defs lexer_defs ctype_defs)

lemma fails_no_semicolon: "fails_at AfterValue (new_Parser (new_Lexer ''int x = 5''))"
  by (simp add: fails_at_def passes_def parser_defs lexer_defs ctype_defs)

lemma current_empty: "tok_value (current (new_Parser (new_Lexer []))) = []"
  by (simp add: parser_defs lexer_defs ctype_defs)

lemma fails_empty: "fails_at Start (new_Parser (new_Lexer []))"
  by (simp add: fails_at_def passes_def parser_defs lexer_defs ctype_defs)

section \<open>Facts about the symbol table\<close>

lemma declare_all_snoc:
  "declare_all st (calls @ [(name, type)]) = declare_symbol (declare_all st calls) name type"
  by (simp add: declare_all_def)

section \<open>The claims\<close>

text \<open>
  C1. Parsing \<^verbatim>\<open>int x = 42;\<close> succeeds with a declaration of \<open>x\<close> whose child is the
  number 42, and printing that tree at indent 0 writes the line \<^verbatim>\<open>Declaration: int x\<close>
  and the line \<^verbatim>\<open>Number: 42\<close> behind exactly two spaces, each ended by a newline;
  this is what \<^verbatim>\<open>main\<close> writes for that source.
\<close>

theorem parse_print_roundtrip:
  "parseDeclaration (new_Parser (new_Lexer ''int x = 42;'')) =
     Inr (Some (DeclarationNode ''int'' ''x'' (Some (NumberNode 42))), [],
          \<lparr>lexer = \<lparr>src = ''int x = 42;'', pos = 11, line = 1, column = 10\<rparr>,
           current = \<lparr>tok_type = EndOfFile, tok_value = [], tok_line = 1, tok_column = 10\<rparr>\<rparr>)
   \<and> print (DeclarationNode ''int'' ''x'' (Some (NumberNode 42))) 0 =
       ''Declaration: int x'' @ [newline] @ ''  Number: 42'' @ [newline]
   \<and> main_body ''int x = 42;'' =
       Inr (''Declaration: int x'' @ [newline] @ ''  Number: 42'' @ [newline], [])"
  by (simp add: main_body_def parser_defs lexer_defs ctype_defs show_int_def show_nat.simps)

text \<open>Read off the theorem: the text printed for the tree that the parse returns.\<close>

theorem parse_print_roundtrip_witness:
  "(case parseDeclaration (new_Parser (new_Lexer ''int x = 42;'')) of
      Inl e \<Rightarrow> []
    | Inr (ast, err, p) \<Rightarrow> (case ast of None \<Rightarrow> [] | Some node \<Rightarrow> print node 0)) =
   ''Declaration: int x'' @ [newline] @ ''  Number: 42'' @ [newline]"
  using parse_print_roundtrip by simp

text \<open>
  C2. Six calls of \<^verbatim>\<open>nextToken\<close> on a lexer over \<^verbatim>\<open>int x = 42;\<close> return, in this
  order, Keyword \<open>int\<close>, Identifier \<open>x\<close>, Symbol \<open>=\<close>, Number \<open>42\<close>, Symbol \<open>;\<close>
  and EndOfFile with the empty text.
\<close>

theorem nextToken_sequence:
  "map (\<lambda>tok. (tok_type tok, tok_value tok)) (next_tokens 6 (new_Lexer ''int x = 42;'')) =
     [(Keyword, ''int''), (Identifier, ''x''), (Symbol, ''=''), (Number, ''42''),
      (Symbol, '';''), (EndOfFile, [])]"
  by (simp add: numeral_eq_Suc lexer_defs ctype_defs)

text \<open>
  C3. The claim wants every token to carry the position of the cursor after the whole
  lexeme, Symbol and Unknown tokens included. \<^verbatim>\<open>symbol()\<close> and the Unknown branch
  step over their character with \<^verbatim>\<open>pos++\<close>, not with \<^verbatim>\<open>advance()\<close>: the column
  stays where the lexeme starts. On the buffer \<^verbatim>\<open>=\<close> the token has column 1 and the
  lexer keeps column 1 at position 1, where \<^verbatim>\<open>advance()\<close> over the same character
  gives column 2; the byte 1, an Unknown token, fares the same. (For every buffer,
  \<open>one_char_token_position\<close> says so of Symbol and Unknown tokens, and
  \<open>run_token_position\<close> that the other tokens do carry the position behind the lexeme.)
\<close>

theorem symbol_keeps_start_column:
  "nextToken (new_Lexer ''='') =
     (\<lparr>tok_type = Symbol, tok_value = ''='', tok_line = 1, tok_column = 1\<rparr>,
      \<lparr>src = ''='', pos = 1, line = 1, column = 1\<rparr>)
   \<and> advance (new_Lexer ''='') = \<lparr>src = ''='', pos = 1, line = 1, column = 2\<rparr>
   \<and> nextToken (new_Lexer [CHR 0x01]) =
     (\<lparr>tok_type = Unknown, tok_value = [CHR 0x01], tok_line = 1, tok_column = 1\<rparr>,
      \<lparr>src = [CHR 0x01], pos = 1, line = 1, column = 1\<rparr>)"
  by (simp add: lexer_defs ctype_defs)

text \<open>
  C7. When the lexer stands on an alphabetic character, the token's text is the longest
  run of alphanumeric characters from there; the token is a Keyword exactly when that
  text is \<open>int\<close> or \<open>return\<close>, and an Identifier exactly when it is neither.
\<close>

theorem keyword_classification:
  assumes "pos lx < length (src lx)" and "isalpha (src lx ! pos lx)"
  shows "tok_value (fst (nextToken lx)) = takeWhile isalnum (drop (pos lx) (src lx)) \<and>
         (tok_type (fst (nextToken lx)) = Keyword \<longleftrightarrow>
            tok_value (fst (nextToken lx)) = ''int'' \<or> tok_value (fst (nextToken lx)) = ''return'') \<and>
         (tok_type (fst (nextToken lx)) = Identifier \<longleftrightarrow>
            \<not> (tok_value (fst (nextToken lx)) = ''int'' \<or> tok_value (fst (nextToken lx)) = ''return''))"
proof -
  from assms have "advance_while isspace lx = lx"
    by (simp add: advance_while_stop isalpha_not_isspace)
  with assms have "nextToken lx = identifier_tok lx"
    by (simp add: nextToken_def Let_def)
  then show ?thesis
    by (simp add: tok_identifier)
qed

text \<open>
  The theorem at \<^verbatim>\<open>integer\<close>, \<^verbatim>\<open>returns\<close>, \<^verbatim>\<open>int\<close> and \<^verbatim>\<open>return\<close>: the first
  two are identifiers, the last two keywords.
\<close>

theorem keyword_classification_witness:
  "tok_type (fst (nextToken (new_Lexer ''integer''))) = Identifier \<and>
   tok_type (fst (nextToken (new_Lexer ''returns''))) = Identifier \<and>
   tok_type (fst (nextToken (new_Lexer ''int''))) = Keyword \<and>
   tok_type (fst (nextToken (new_Lexer ''return;''))) = Keyword"
  using keyword_classification [of "new_Lexer ''integer''"]
    keyword_classification [of "new_Lexer ''returns''"]
    keyword_classification [of "new_Lexer ''int''"]
    keyword_classification [of "new_Lexer ''return;''"]
  by (simp add: new_Lexer_def ctype_defs)

text \<open>
  C8. Parsing \<^verbatim>\<open>int x 42;\<close> returns no tree: the call stops at the third token, the
  Number \<open>42\<close> where the symbol \<open>=\<close> is expected, with the message of that checkpoint.
\<close>

theorem missing_equals_fails:
  "parseDeclaration (new_Parser (new_Lexer ''int x 42;'')) =
     Inr (None, msg_equals,
          \<lparr>lexer = \<lparr>src = ''int x 42;'', pos = 8, line = 1, column = 9\<rparr>,
           current = \<lparr>tok_type = Number, tok_value = ''42'', tok_line = 1, tok_column = 9\<rparr>\<rparr>)
   \<and> passes Start (new_Parser (new_Lexer ''int x 42;''))
   \<and> passes AfterType (new_Parser (new_Lexer ''int x 42;''))
   \<and> \<not> passes AfterName (new_Parser (new_Lexer ''int x 42;''))"
  by (simp add: passes_def parser_defs lexer_defs ctype_defs)

text \<open>Read off the theorem: \<^verbatim>\<open>main\<close> prints no tree for this source, only the message.\<close>

theorem missing_equals_fails_witness:
  "main_body ''int x 42;'' = Inr ([], msg_equals)"
  using missing_equals_fails by (simp add: main_body_def)

text \<open>
  C4. \<^verbatim>\<open>parseDeclaration\<close> returns a tree exactly when the five checkpoints pass and
  the value of the Number lexeme fits an \<^verbatim>\<open>int\<close>; the tree is then a declaration of
  type \<open>int\<close> with the identifier's name, whose child is present and is the number
  node of the decimal value of the lexeme, nothing has been written to
  \<^verbatim>\<open>std::cerr\<close>, and the parser stands one token behind the semicolon. In every other
  case the call returns no tree. The lexeme of the Number token is a run of digits, not
  empty, and its decimal value is what \<^verbatim>\<open>std::stoi\<close> returns for it.
\<close>

theorem parseDeclaration_present_iff:
  "(parseDeclaration p = Inr (Some node, err, p') \<longleftrightarrow>
     passes Start p \<and> passes AfterType p \<and> passes AfterName p \<and> passes AfterEquals p \<and>
     passes AfterValue p \<and>
     decimal (tok_value (current (parser_at AfterEquals p))) \<le> INT_MAX \<and>
     node = DeclarationNode ''int'' (tok_value (current (parser_at AfterType p)))
              (Some (NumberNode (decimal (tok_value (current (parser_at AfterEquals p)))))) \<and>
     err = [] \<and> p' = parser_advance (parser_at AfterValue p)) \<and>
   (passes AfterEquals p \<longrightarrow>
     tok_value (current (parser_at AfterEquals p)) \<noteq> [] \<and>
     (\<forall>c \<in> set (tok_value (current (parser_at AfterEquals p))). isdigit c) \<and>
     stoi (tok_value (current (parser_at AfterEquals p))) =
       (if INT_MAX < decimal (tok_value (current (parser_at AfterEquals p)))
        then Inl out_of_range
        else Inr (decimal (tok_value (current (parser_at AfterEquals p))))))"
proof (cases "passes AfterEquals p")
  case True
  note conv = stoi_Number_lexeme [OF True]
  from conv have "(\<exists>val. stoi (tok_value (current (parser_at AfterEquals p))) = Inr val \<and>
        node = DeclarationNode ''int'' (tok_value (current (parser_at AfterType p)))
                 (Some (NumberNode val))) \<longleftrightarrow>
     decimal (tok_value (current (parser_at AfterEquals p))) \<le> INT_MAX \<and>
     node = DeclarationNode ''int'' (tok_value (current (parser_at AfterType p)))
              (Some (NumberNode (decimal (tok_value (current (parser_at AfterEquals p))))))"
    by auto
  with conv show ?thesis
    by (simp only: present_iff_stoi [of p node err p'] True) blast
next
  case False
  then show ?thesis by (simp add: present_iff_stoi)
qed

text \<open>
  The theorem from right to left, on \<^verbatim>\<open>int x = 42;\<close> and on \<^verbatim>\<open>int n = 7;\<close>: the
  number node holds 42 in the first tree and 7 in the second.
\<close>

theorem parseDeclaration_present_iff_witness:
  "parseDeclaration (new_Parser (new_Lexer ''int x = 42;'')) =
     Inr (Some (DeclarationNode ''int'' ''x'' (Some (NumberNode 42))), [],
          parser_advance (parser_at AfterValue (new_Parser (new_Lexer ''int x = 42;'')))) \<and>
   parseDeclaration (new_Parser (new_Lexer ''int n = 7;'')) =
     Inr (Some (DeclarationNode ''int'' ''n'' (Some (NumberNode 7))), [],
          parser_advance (parser_at AfterValue (new_Parser (new_Lexer ''int n = 7;''))))"
proof
  show "parseDeclaration (new_Parser (new_Lexer ''int x = 42;'')) =
     Inr (Some (DeclarationNode ''int'' ''x'' (Some (NumberNode 42))), [],
          parser_advance (parser_at AfterValue (new_Parser (new_Lexer ''int x = 42;''))))"
    by (rule parseDeclaration_present_iff [THEN conjunct1, THEN iffD2])
      (use passes_valid tokens_valid lexeme_valid in
        \<open>simp add: decimal_def digit_value_def INT_MAX_def\<close>)
  show "parseDeclaration (new_Parser (new_Lexer ''int n = 7;'')) =
     Inr (Some (DeclarationNode ''int'' ''n'' (Some (NumberNode 7))), [],
          parser_advance (parser_at AfterValue (new_Parser (new_Lexer ''int n = 7;''))))"
    by (rule parseDeclaration_present_iff [THEN conjunct1, THEN iffD2])
      (use passes_seven in \<open>simp add: decimal_def digit_value_def INT_MAX_def\<close>)
qed

text \<open>
  C5, as stated, fails: the source \<^verbatim>\<open>int x = 2147483648;\<close> passes the first four
  checkpoints, its Number lexeme is a run of digits, and the conversion throws
  \<^verbatim>\<open>std::out_of_range\<close> all the same, out of \<^verbatim>\<open>parseDeclaration\<close>.
\<close>

theorem conversion_can_fail:
  "passes Start (new_Parser (new_Lexer ''int x = 2147483648;'')) \<and>
   passes AfterType (new_Parser (new_Lexer ''int x = 2147483648;'')) \<and>
   passes AfterName (new_Parser (new_Lexer ''int x = 2147483648;'')) \<and>
   passes AfterEquals (new_Parser (new_Lexer ''int x = 2147483648;'')) \<and>
   stoi (tok_value (current (parser_at AfterEquals (new_Parser (new_Lexer ''int x = 2147483648;''))))) =
     Inl out_of_range \<and>
   parseDeclaration (new_Parser (new_Lexer ''int x = 2147483648;'')) = Inl out_of_range"
  using passes_overflow parse_overflow
  by (simp add: stoi_def decimal_def digit_value_def INT_MAX_def INT_MIN_def ctype_defs)

text \<open>
  C5, amended. When the first four checkpoints pass, the conversion of the Number lexeme
  never fails for want of a valid integer: neither \<^verbatim>\<open>std::stoi\<close> nor the call throws
  \<^verbatim>\<open>std::invalid_argument\<close>. It throws \<^verbatim>\<open>std::out_of_range\<close>, and the call with
  it, exactly when the value of the digits is above \<open>INT_MAX\<close>.
\<close>

theorem conversion_fails_iff_out_of_range:
  assumes "passes Start p" and "passes AfterType p" and "passes AfterName p"
    and "passes AfterEquals p"
  shows "stoi (tok_value (current (parser_at AfterEquals p))) \<noteq> Inl invalid_argument \<and>
         parseDeclaration p \<noteq> Inl invalid_argument \<and>
         (stoi (tok_value (current (parser_at AfterEquals p))) = Inl out_of_range \<longleftrightarrow>
            INT_MAX < decimal (tok_value (current (parser_at AfterEquals p)))) \<and>
         (parseDeclaration p = Inl out_of_range \<longleftrightarrow>
            INT_MAX < decimal (tok_value (current (parser_at AfterEquals p))))"
proof -
  let ?lexeme = "tok_value (current (parser_at AfterEquals p))"
  from assms(4) have "tok_type (fst (nextToken (lexer (parser_at AfterName p)))) = Number"
    by (simp add: passes_def current_parser_advance)
  then have "?lexeme \<noteq> [] \<and> (\<forall>c \<in> set ?lexeme. isdigit c)"
    using nextToken_Number [of "lexer (parser_at AfterName p)"]
    by (simp add: current_parser_advance)
  then have conv: "stoi ?lexeme =
      (if INT_MAX < decimal ?lexeme then Inl out_of_range else Inr (decimal ?lexeme))"
    by (simp add: stoi_digits)
  from assms have "parseDeclaration p =
     (case stoi ?lexeme of
        Inl e \<Rightarrow> Inl e
      | Inr val \<Rightarrow>
          if passes AfterValue p
          then Inr (Some (DeclarationNode ''int'' (tok_value (current (parser_at AfterType p)))
                       (Some (NumberNode val))), [], parser_advance (parser_at AfterValue p))
          else Inr (None, msg_semicolon, parser_at AfterValue p))"
    by (rule reach_conversion)
  with conv show ?thesis by simp
qed

text \<open>
  The theorem on \<^verbatim>\<open>int x = 2147483648;\<close>, where the call throws, and on
  \<^verbatim>\<open>int x = 42;\<close>, where it does not.
\<close>

theorem conversion_fails_iff_out_of_range_witness:
  "INT_MAX < decimal ''2147483648'' \<and>
   parseDeclaration (new_Parser (new_Lexer ''int x = 2147483648;'')) \<noteq> Inl invalid_argument \<and>
   parseDeclaration (new_Parser (new_Lexer ''int x = 42;'')) \<noteq> Inl out_of_range"
  using conversion_fails_iff_out_of_range [of "new_Parser (new_Lexer ''int x = 2147483648;'')"]
    conversion_fails_iff_out_of_range [of "new_Parser (new_Lexer ''int x = 42;'')"]
    passes_overflow parse_overflow passes_valid tokens_valid
  by (simp add: stoi_def decimal_def digit_value_def INT_MAX_def INT_MIN_def ctype_defs)

text \<open>
  C6, as stated, fails: the source \<^verbatim>\<open>int x = y;\<close> is rejected at the fourth checkpoint
  with the offending token \<open>y\<close>, and the message written has no \<open>y\<close> in it.
\<close>

theorem diagnostic_omits_token_text:
  "parseDeclaration (new_Parser (new_Lexer ''int x = y;'')) =
     Inr (None, msg_number,
          \<lparr>lexer = \<lparr>src = ''int x = y;'', pos = 9, line = 1, column = 9\<rparr>,
           current = \<lparr>tok_type = Identifier, tok_value = ''y'', tok_line = 1, tok_column = 9\<rparr>\<rparr>)
   \<and> \<not> sublist ''y'' msg_number"
  using parse_no_number not_sublist_msg_number by simp

text \<open>
  C6, amended. For every input on which a checkpoint of \<^verbatim>\<open>parseDeclaration\<close> fails,
  the failure is terminal: the call returns no tree, the parser stands on the offending
  token, one token read for each checkpoint passed and none more, and the text written
  to \<^verbatim>\<open>std::cerr\<close> is the message of the failing checkpoint and of no other. Every
  call that returns no tree has failed so. At \<open>Start\<close> the message is
  \<^verbatim>\<open>Unexpected token: \<close> followed by the offending token's text; at each of the four
  later checkpoints it is one fixed string, the same whatever the offending token is.
\<close>

theorem checkpoint_failure_is_terminal:
  "(fails_at c p \<longrightarrow>
      parseDeclaration p = Inr (None, diagnostic c (current (parser_at c p)), parser_at c p)) \<and>
   (parseDeclaration p = Inr (None, err, p') \<longleftrightarrow>
      (\<exists>c'. fails_at c' p \<and> err = diagnostic c' (current (parser_at c' p)) \<and>
         p' = parser_at c' p)) \<and>
   (diagnostic c tok = diagnostic c' tok' \<longrightarrow> c = c') \<and>
   diagnostic Start tok = ''Unexpected token: '' @ tok_value tok @ [newline] \<and>
   diagnostic AfterType tok =
     ''Expected identifier after '' @ [CHR 0x27] @ ''int'' @ [CHR 0x27, newline] \<and>
   diagnostic AfterName tok =
     ''Expected '' @ [CHR 0x27] @ ''='' @ [CHR 0x27] @ '' after identifier'' @ [newline] \<and>
   diagnostic AfterEquals tok =
     ''Expected number after '' @ [CHR 0x27] @ ''='' @ [CHR 0x27, newline] \<and>
   diagnostic AfterValue tok =
     ''Expected '' @ [CHR 0x27] @ '';'' @ [CHR 0x27] @ '' at the end of declaration'' @ [newline]"
proof -
  have fwd: "fails_at c p \<longrightarrow>
      parseDeclaration p = Inr (None, diagnostic c (current (parser_at c p)), parser_at c p)"
    by (simp add: fails_at_result)
  have both: "parseDeclaration p = Inr (None, err, p') \<longleftrightarrow>
      (\<exists>c'. fails_at c' p \<and> err = diagnostic c' (current (parser_at c' p)) \<and>
         p' = parser_at c' p)"
    using absent_result_fails_at [of p err p'] fails_at_result by auto
  have inj: "diagnostic c tok = diagnostic c' tok' \<longrightarrow> c = c'"
    using diagnostic_inj by blast
  from fwd both inj show ?thesis by (simp add: msg_defs)
qed

text \<open>
  The theorem on three sources: \<^verbatim>\<open>int x = y;\<close> fails at the fourth checkpoint,
  \<^verbatim>\<open>int x = 5\<close> at the fifth, and the empty source at the first, where the message
  ends with the empty text of the EndOfFile token.
\<close>

theorem checkpoint_failure_is_terminal_witness:
  "parseDeclaration (new_Parser (new_Lexer ''int x = y;'')) =
     Inr (None, msg_number, parser_at AfterEquals (new_Parser (new_Lexer ''int x = y;''))) \<and>
   parseDeclaration (new_Parser (new_Lexer ''int x = 5'')) =
     Inr (None, msg_semicolon, parser_at AfterValue (new_Parser (new_Lexer ''int x = 5''))) \<and>
   parseDeclaration (new_Parser (new_Lexer [])) =
     Inr (None, ''Unexpected token: '' @ [newline], new_Parser (new_Lexer []))"
proof -
  have number: "parseDeclaration (new_Parser (new_Lexer ''int x = y;'')) =
      Inr (None,
           diagnostic AfterEquals (current (parser_at AfterEquals (new_Parser (new_Lexer ''int x = y;'')))),
           parser_at AfterEquals (new_Parser (new_Lexer ''int x = y;'')))"
    using checkpoint_failure_is_terminal [THEN conjunct1] fails_no_number by (rule mp)
  have semicolon: "parseDeclaration (new_Parser (new_Lexer ''int x = 5'')) =
      Inr (None,
           diagnostic AfterValue (current (parser_at AfterValue (new_Parser (new_Lexer ''int x = 5'')))),
           parser_at AfterValue (new_Parser (new_Lexer ''int x = 5'')))"
    using checkpoint_failure_is_terminal [THEN conjunct1] fails_no_semicolon by (rule mp)
  have empty: "parseDeclaration (new_Parser (new_Lexer [])) =
      Inr (None, diagnostic Start (current (parser_at Start (new_Parser (new_Lexer [])))),
           parser_at Start (new_Parser (new_Lexer [])))"
    using checkpoint_failure_is_terminal [THEN conjunct1] fails_empty by (rule mp)
  from number semicolon empty current_empty show ?thesis
    by (simp add: msg_unexpected_def)
qed

text \<open>
  C9. After any sequence of \<^verbatim>\<open>declare\<close> calls on a new table, \<^verbatim>\<open>exists(n)\<close> is
  true exactly when one of the calls declared \<open>n\<close>, and \<^verbatim>\<open>typeOf(n)\<close> is the type of
  the last call that declared \<open>n\<close>, or the empty string when there is none.
\<close>

theorem declare_last_write_wins:
  "fst (exists (declare_all new_SymbolTable calls) n) = (n \<in> set (map fst calls)) \<and>
   fst (typeOf (declare_all new_SymbolTable calls) n) =
     (case filter (\<lambda>c. fst c = n) (rev calls) of [] \<Rightarrow> [] | c # cs \<Rightarrow> snd c)"
proof (induction calls rule: rev_induct)
  case Nil
  show ?case by (simp add: declare_all_def new_SymbolTable_def exists_def typeOf_def)
next
  case (snoc call calls)
  obtain k t where call: "call = (k, t)" by (cases call)
  show ?case
  proof (cases "k = n")
    case True
    with call show ?thesis
      by (auto simp: declare_all_snoc declare_symbol_def exists_def typeOf_def)
  next
    case False
    with call snoc show ?thesis
      by (auto simp: declare_all_snoc declare_symbol_def exists_def typeOf_def)
  qed
qed

text \<open>
  The theorem on the calls \<open>x : int\<close>, \<open>y : int\<close>, \<open>x : float\<close>: the later type of
  \<open>x\<close> wins, and \<open>z\<close> is absent.
\<close>

theorem declare_last_write_wins_witness:
  "fst (exists (declare_all new_SymbolTable [(''x'', ''int''), (''y'', ''int''), (''x'', ''float'')]) ''x'') \<and>
   fst (typeOf (declare_all new_SymbolTable [(''x'', ''int''), (''y'', ''int''), (''x'', ''float'')]) ''x'') = ''float'' \<and>
   \<not> fst (exists (declare_all new_SymbolTable [(''x'', ''int''), (''y'', ''int''), (''x'', ''float'')]) ''z'') \<and>
   fst (typeOf (declare_all new_SymbolTable [(''x'', ''int''), (''y'', ''int''), (''x'', ''float'')]) ''z'') = []"
  using declare_last_write_wins [of "[(''x'', ''int''), (''y'', ''int''), (''x'', ''float'')]" "''x''"]
    declare_last_write_wins [of "[(''x'', ''int''), (''y'', ''int''), (''x'', ''float'')]" "''z''"]
  by simp

text \<open>
  C10. \<^verbatim>\<open>declare(name, type)\<close> leaves the entry of every other name as it was, and
  with it what \<^verbatim>\<open>exists\<close> and \<^verbatim>\<open>typeOf\<close> answer for that name; \<^verbatim>\<open>exists\<close> and
  \<^verbatim>\<open>typeOf\<close> leave the whole table as it was.
\<close>

theorem declare_frame:
  "(m \<noteq> name \<longrightarrow>
      declare_symbol st name type m = st m \<and>
      fst (exists (declare_symbol st name type) m) = fst (exists st m) \<and>
      fst (typeOf (declare_symbol st name type) m) = fst (typeOf st m)) \<and>
   snd (exists st k) = st \<and> snd (typeOf st k) = st"
  by (simp add: declare_symbol_def exists_def typeOf_def)

text \<open>The theorem on a table that declares \<open>x\<close> and then \<open>y\<close>.\<close>

theorem declare_frame_witness:
  "fst (typeOf (declare_symbol (declare_symbol new_SymbolTable ''x'' ''int'') ''y'' ''float'') ''x'') = ''int'' \<and>
   snd (typeOf (declare_symbol new_SymbolTable ''x'' ''int'') ''x'') =
     declare_symbol new_SymbolTable ''x'' ''int''"
proof -
  have "''x'' \<noteq> ''y''" by simp
  with declare_frame [of "''x''" "''y''" "declare_symbol new_SymbolTable ''x'' ''int''" "''float''" "''x''"]
  show ?thesis by (simp add: declare_symbol_def typeOf_def new_SymbolTable_def)
qed

end
